theory Spec2Isabelle
  imports Main "HOL-Library.Word"
begin

section \<open>The simple debugger of NEMU (nemu/src/monitor/sdb/sdb.c)\<close>

text \<open>
  The file embeds the command handlers, the command table and the main loop of
  \<^verbatim>\<open>sdb.c\<close>. The functions the file only declares (the execution engine, the register
  printer, the watchpoint pool, the expression evaluator and the memory reader) are
  parameters of the model: a record of functions over an abstract machine state \<open>'w\<close>.
  Every call of such a function is logged, in order, in the field \<open>calls\<close>, and every
  character written to standard output is appended to the field \<open>out\<close>.
\<close>

subsection \<open>C values\<close>

text \<open>
  \<^verbatim>\<open>word_t\<close> and \<^verbatim>\<open>vaddr_t\<close> are declared outside this file; they are taken as the
  32-bit unsigned type, and \<^verbatim>\<open>sword_t\<close> as its signed reading. A C \<^verbatim>\<open>int\<close> is an
  \<open>int\<close> kept in the 32-bit two's complement range by \<open>wrap32\<close> wherever a result
  may leave that range. A \<^verbatim>\<open>char *\<close> is a \<open>string option\<close>, \<open>None\<close> for \<^verbatim>\<open>NULL\<close>.
\<close>

type_synonym word_t = "32 word"
type_synonym vaddr_t = "32 word"

definition wrap32 :: "int \<Rightarrow> int" where
  "wrap32 v = (v + 2 ^ 31) mod 2 ^ 32 - 2 ^ 31"

text \<open>The only field of \<^verbatim>\<open>WP\<close> this file reads.\<close>

record WP =
  NO :: int

text \<open>Dereferencing \<^verbatim>\<open>NULL\<close> stops the process.\<close>

datatype error = NullDereference

subsection \<open>The external functions and the state\<close>

datatype event =
    E_readline string
  | E_add_history string
  | E_cpu_exec int
  | E_isa_reg_display
  | E_show_watchpoint
  | E_new_wp "string option" word_t
  | E_delete_watchpoint int
  | E_expr "string option"
  | E_vaddr_read vaddr_t int

text \<open>
  \<open>expr\<close> takes the value the flag \<^verbatim>\<open>*success\<close> has at the call and returns the result
  with the value the flag has afterwards. \<open>new_wp\<close> returns a pointer, so \<open>None\<close> is
  \<^verbatim>\<open>NULL\<close>. The two printers return the text they write.
\<close>

record 'w collaborators =
  cpu_exec :: "int \<Rightarrow> 'w \<Rightarrow> 'w"
  isa_reg_display :: "'w \<Rightarrow> string"
  show_watchpoint :: "'w \<Rightarrow> string"
  new_wp :: "string option \<Rightarrow> word_t \<Rightarrow> 'w \<Rightarrow> WP option \<times> 'w"
  delete_watchpoint :: "int \<Rightarrow> 'w \<Rightarrow> int \<times> 'w"
  expr :: "string option \<Rightarrow> bool \<Rightarrow> 'w \<Rightarrow> word_t \<times> bool"
  vaddr_read :: "vaddr_t \<Rightarrow> int \<Rightarrow> 'w \<Rightarrow> word_t"

text \<open>
  \<open>is_batch_mode\<close> is the static flag of the file, \<open>nemu_quit\<close> holds whether
  \<^verbatim>\<open>nemu_state.state\<close> is \<^verbatim>\<open>NEMU_QUIT\<close>, \<open>strtok_save\<close> is what is left of the string
  \<^verbatim>\<open>strtok\<close> is working on.
\<close>

record 'w sdb_state =
  is_batch_mode :: bool
  nemu_quit :: bool
  strtok_save :: string
  world :: "'w"
  calls :: "event list"
  out :: string

definition printf :: "string \<Rightarrow> 'w sdb_state \<Rightarrow> 'w sdb_state" where
  "printf txt s = s\<lparr>out := out s @ txt\<rparr>"

definition log_call :: "event \<Rightarrow> 'w sdb_state \<Rightarrow> 'w sdb_state" where
  "log_call e s = s\<lparr>calls := calls s @ [e]\<rparr>"

subsection \<open>The C library: printf conversions, sscanf, strtok\<close>

definition digit_char :: "nat \<Rightarrow> char" where
  "digit_char d = ''0123456789abcdef'' ! d"

fun dec_nat :: "nat \<Rightarrow> string" where
  "dec_nat n = (if n < 10 then [digit_char n] else dec_nat (n div 10) @ [digit_char (n mod 10)])"

declare dec_nat.simps [simp del]

text \<open>The conversion \<^verbatim>\<open>%d\<close>.\<close>

definition fmt_d :: "int \<Rightarrow> string" where
  "fmt_d i = (if i < 0 then CHR ''-'' # dec_nat (nat (- i)) else dec_nat (nat i))"

text \<open>The conversion \<^verbatim>\<open>%02x\<close> of a \<^verbatim>\<open>uint8_t\<close>.\<close>

definition fmt_02x :: "8 word \<Rightarrow> string" where
  "fmt_02x v = [digit_char (unat v div 16), digit_char (unat v mod 16)]"

definition isspace :: "char \<Rightarrow> bool" where
  "isspace c = (c \<in> set [CHR '' '', CHR 0x09, CHR 0x0A, CHR 0x0B, CHR 0x0C, CHR 0x0D])"

definition isdigit :: "char \<Rightarrow> bool" where
  "isdigit c = (c \<in> set ''0123456789'')"

definition digit_val :: "char \<Rightarrow> int" where
  "digit_val c = of_char c - 48"

definition digits_val :: "string \<Rightarrow> int" where
  "digits_val ds = foldl (\<lambda>acc c. 10 * acc + digit_val c) 0 ds"

text \<open>
  The directive \<^verbatim>\<open>%d\<close> of \<^verbatim>\<open>sscanf\<close>: white space is skipped, then an optional sign
  and a non-empty run of decimal digits are read; with no digit there the directive
  fails.
\<close>

definition scan_d :: "string \<Rightarrow> int option" where
  "scan_d str =
     (let p = dropWhile isspace str;
          neg = (p \<noteq> [] \<and> hd p = CHR ''-'');
          q = (if p \<noteq> [] \<and> (hd p = CHR ''-'' \<or> hd p = CHR ''+'') then tl p else p);
          ds = takeWhile isdigit q
      in if ds = [] then None
         else Some (if neg then - digits_val ds else digits_val ds))"

text \<open>
  \<^verbatim>\<open>sscanf(str, "%d", &n)\<close>, as a function of the value \<open>n\<close> had before: the variable is
  written only when the directive matches.
\<close>

definition sscanf_d :: "string \<Rightarrow> int \<Rightarrow> int" where
  "sscanf_d str n = (case scan_d str of None \<Rightarrow> n | Some v \<Rightarrow> wrap32 v)"

text \<open>
  \<^verbatim>\<open>strtok(str, delim)\<close>: with \<^verbatim>\<open>NULL\<close> for \<open>str\<close> it goes on where the last call
  stopped. Leading delimiters are skipped; the token runs up to the next delimiter,
  which is overwritten, and the scan is saved behind it.
\<close>

definition strtok :: "string option \<Rightarrow> string \<Rightarrow> 'w sdb_state \<Rightarrow> string option \<times> 'w sdb_state" where
  "strtok str delim s =
     (let p = (case str of None \<Rightarrow> strtok_save s | Some a \<Rightarrow> a);
          p1 = dropWhile (\<lambda>c. c \<in> set delim) p
      in if p1 = [] then (None, s\<lparr>strtok_save := []\<rparr>)
         else let tok = takeWhile (\<lambda>c. c \<notin> set delim) p1
              in (Some tok, s\<lparr>strtok_save := drop (length tok + 1) p1\<rparr>))"

subsection \<open>The line reader\<close>

text \<open>
  \<^verbatim>\<open>readline\<close> is the list of the lines still to come; at its end \<^verbatim>\<open>readline\<close>
  returns \<^verbatim>\<open>NULL\<close>.
\<close>

definition rl_gets :: "string list \<Rightarrow> 'w sdb_state \<Rightarrow> string option \<times> string list \<times> 'w sdb_state" where
  "rl_gets stdin s =
     (let s1 = log_call (E_readline ''(nemu) '') s
      in case stdin of
           [] \<Rightarrow> (None, [], s1)
         | line_read # rest \<Rightarrow>
             (Some line_read, rest,
              if line_read \<noteq> [] then log_call (E_add_history line_read) s1 else s1))"

subsection \<open>The command table and the handlers\<close>

datatype handler =
  H_cmd_help | H_cmd_c | H_cmd_q | H_cmd_si | H_cmd_info | H_cmd_x | H_cmd_p | H_cmd_w | H_cmd_d

definition cmd_table :: "(string \<times> string \<times> handler) list" where
  "cmd_table =
     [ (''help'', ''Display information about all supported commands'', H_cmd_help),
       (''c'', ''Continue the execution of the program'', H_cmd_c),
       (''q'', ''Exit NEMU'', H_cmd_q),
       (''si'', ''Step through N instructions'', H_cmd_si),
       (''info'', ''Show the infomation of reg and watch point'', H_cmd_info),
       (''x'', ''Scan the memory'', H_cmd_x),
       (''p'', ''Expressions evaluate'', H_cmd_p),
       (''w'', ''Set the watch point'', H_cmd_w),
       (''d'', ''delete the watch point'', H_cmd_d) ]"

type_synonym 'w result = "error + int \<times> 'w sdb_state"

definition call_cpu_exec :: "'w collaborators \<Rightarrow> int \<Rightarrow> 'w sdb_state \<Rightarrow> 'w sdb_state" where
  "call_cpu_exec env n s = (log_call (E_cpu_exec n) s)\<lparr>world := cpu_exec env n (world s)\<rparr>"

definition cmd_c :: "'w collaborators \<Rightarrow> string option \<Rightarrow> 'w sdb_state \<Rightarrow> 'w result" where
  "cmd_c env args s = Inr (0, call_cpu_exec env (- 1) s)"

definition cmd_q :: "'w collaborators \<Rightarrow> string option \<Rightarrow> 'w sdb_state \<Rightarrow> 'w result" where
  "cmd_q env args s = Inr (- 1, s\<lparr>nemu_quit := True\<rparr>)"

definition help_line :: "string \<times> string \<times> handler \<Rightarrow> string" where
  "help_line e = fst e @ '' - '' @ fst (snd e) @ [CHR 0x0A]"

fun help_find :: "string \<Rightarrow> (string \<times> string \<times> handler) list \<Rightarrow> 'w sdb_state \<Rightarrow> 'w sdb_state" where
  "help_find arg [] s = printf (''Unknown command '' @ [CHR 0x27] @ arg @ [CHR 0x27, CHR 0x0A]) s"
| "help_find arg (e # tbl) s = (if arg = fst e then printf (help_line e) s else help_find arg tbl s)"

definition cmd_help :: "'w collaborators \<Rightarrow> string option \<Rightarrow> 'w sdb_state \<Rightarrow> 'w result" where
  "cmd_help env args s =
     (case strtok None '' '' s of
        (None, s1) \<Rightarrow> Inr (0, printf (concat (map help_line cmd_table)) s1)
      | (Some arg, s1) \<Rightarrow> Inr (0, help_find arg cmd_table s1))"

definition cmd_si :: "'w collaborators \<Rightarrow> string option \<Rightarrow> 'w sdb_state \<Rightarrow> 'w result" where
  "cmd_si env args s =
     (let n = (case args of None \<Rightarrow> 1 | Some a \<Rightarrow> sscanf_d a 0)
      in Inr (0, call_cpu_exec env n s))"

text \<open>\<^verbatim>\<open>strcmp(args, "r")\<close> reads through \<open>args\<close>, which the loop passes as \<^verbatim>\<open>NULL\<close> for a bare verb.\<close>

definition cmd_info :: "'w collaborators \<Rightarrow> string option \<Rightarrow> 'w sdb_state \<Rightarrow> 'w result" where
  "cmd_info env args s =
     (case args of
        None \<Rightarrow> Inl NullDereference
      | Some a \<Rightarrow>
          if a = ''r'' then Inr (0, printf (isa_reg_display env (world s)) (log_call E_isa_reg_display s))
          else if a = ''w'' then Inr (0, printf (show_watchpoint env (world s)) (log_call E_show_watchpoint s))
          else Inr (0, printf (''Unknow parma'' @ [CHR 0x0A]) s))"

function x_loop :: "'w collaborators \<Rightarrow> vaddr_t \<Rightarrow> int \<Rightarrow> int \<Rightarrow> 'w sdb_state \<Rightarrow> 'w sdb_state" where
  "x_loop env addr n i s =
     (if i < wrap32 (4 * n) then
        let val = (ucast (vaddr_read env (addr + word_of_int i) 1 (world s)) :: 8 word)
        in x_loop env addr n (i + 1)
             (printf (fmt_02x val @ '' '') (log_call (E_vaddr_read (addr + word_of_int i) 1) s))
      else s)"
  by pat_completeness auto
termination
  by (relation "measure (\<lambda>(env, addr, n, i, s). nat (wrap32 (4 * n) - i))") auto

declare x_loop.simps [simp del]

definition cmd_x :: "'w collaborators \<Rightarrow> string option \<Rightarrow> 'w sdb_state \<Rightarrow> 'w result" where
  "cmd_x env args s =
     (case strtok args '' '' s of (parma1, s1) \<Rightarrow>
      case strtok None '' '' s1 of (parma2, s2) \<Rightarrow>
        if parma1 = None \<or> parma2 = None then Inr (0, printf (''Unknow parma'' @ [CHR 0x0A]) s2)
        else
          let n = sscanf_d (the parma1) 0
          in case expr env parma2 False (world s2) of (addr, success) \<Rightarrow>
               Inr (0, printf [CHR 0x0A] (x_loop env addr n 0 (log_call (E_expr parma2) s2))))"

definition cmd_p :: "'w collaborators \<Rightarrow> string option \<Rightarrow> 'w sdb_state \<Rightarrow> 'w result" where
  "cmd_p env args s =
     (case expr env args True (world s) of (val, success) \<Rightarrow>
        let s1 = log_call (E_expr args) s
        in if success then Inr (0, printf (''val = '' @ fmt_d (sint val) @ [CHR 0x0A]) s1)
           else Inr (0, printf (''expr false, please correctly input again!'' @ [CHR 0x0A]) s1))"

definition cmd_w :: "'w collaborators \<Rightarrow> string option \<Rightarrow> 'w sdb_state \<Rightarrow> 'w result" where
  "cmd_w env args s =
     (case expr env args True (world s) of (val, success) \<Rightarrow>
        let s1 = log_call (E_expr args) s
        in if success then
             (case new_wp env args val (world s1) of (wp, w') \<Rightarrow>
                let s2 = (log_call (E_new_wp args val) s1)\<lparr>world := w'\<rparr>
                in (case wp of
                      None \<Rightarrow> Inl NullDereference
                    | Some p \<Rightarrow>
                        Inr (0, printf (''watch point '' @ fmt_d (NO p) @ '' set succeed'' @ [CHR 0x0A]) s2)))
           else Inr (0, s1))"

definition cmd_d :: "'w collaborators \<Rightarrow> string option \<Rightarrow> 'w sdb_state \<Rightarrow> 'w result" where
  "cmd_d env args s =
     (case strtok args '' '' s of
        (None, s1) \<Rightarrow> Inr (0, printf (''Unknow parma'' @ [CHR 0x0A]) s1)
      | (Some param, s1) \<Rightarrow>
          let n = sscanf_d param 0
          in case delete_watchpoint env n (world s1) of (r, w') \<Rightarrow>
               let s2 = (log_call (E_delete_watchpoint n) s1)\<lparr>world := w'\<rparr>
               in if r = 1 then Inr (0, printf (''delete succeed!'' @ [CHR 0x0A]) s2)
                  else Inr (- 1, printf (''delete failed, please input correct number!'' @ [CHR 0x0A]) s2))"

definition sdb_set_batch_mode :: "'w sdb_state \<Rightarrow> 'w sdb_state" where
  "sdb_set_batch_mode s = s\<lparr>is_batch_mode := True\<rparr>"

text \<open>The call through the function pointer \<^verbatim>\<open>cmd_table[i].handler\<close>.\<close>

fun call_handler :: "'w collaborators \<Rightarrow> handler \<Rightarrow> string option \<Rightarrow> 'w sdb_state \<Rightarrow> 'w result" where
  "call_handler env H_cmd_help = cmd_help env"
| "call_handler env H_cmd_c = cmd_c env"
| "call_handler env H_cmd_q = cmd_q env"
| "call_handler env H_cmd_si = cmd_si env"
| "call_handler env H_cmd_info = cmd_info env"
| "call_handler env H_cmd_x = cmd_x env"
| "call_handler env H_cmd_p = cmd_p env"
| "call_handler env H_cmd_w = cmd_w env"
| "call_handler env H_cmd_d = cmd_d env"

subsection \<open>The main loop\<close>

text \<open>What one pass through the body of the loop ends with.\<close>

datatype flow = Continue | Return

text \<open>
  The scan of the table: the first entry whose name equals \<open>cmd\<close> has its handler
  called, and a negative status leaves \<^verbatim>\<open>sdb_mainloop\<close>; with no such entry the index
  reaches \<^verbatim>\<open>NR_CMD\<close> and the message is printed.
\<close>

fun dispatch :: "'w collaborators \<Rightarrow> string \<Rightarrow> string option \<Rightarrow> (string \<times> string \<times> handler) list \<Rightarrow>
    'w sdb_state \<Rightarrow> error + flow \<times> 'w sdb_state" where
  "dispatch env cmd args [] s =
     Inr (Continue, printf (''Unknown command '' @ [CHR 0x27] @ cmd @ [CHR 0x27, CHR 0x0A]) s)"
| "dispatch env cmd args (e # tbl) s =
     (if cmd = fst e then
        (case call_handler env (snd (snd e)) args s of
           Inl err \<Rightarrow> Inl err
         | Inr (r, s') \<Rightarrow> if r < 0 then Inr (Return, s') else Inr (Continue, s'))
      else dispatch env cmd args tbl s)"

text \<open>
  The body of the loop for the line \<open>str\<close>, in the build without \<^verbatim>\<open>CONFIG_DEVICE\<close>.
  \<^verbatim>\<open>cmd\<close> points behind the blanks \<^verbatim>\<open>strtok\<close> skipped, so \<^verbatim>\<open>args\<close> is at offset
  \<open>cmd_off + length cmd + 1\<close> of the line.
\<close>

definition sdb_body :: "'w collaborators \<Rightarrow> string \<Rightarrow> 'w sdb_state \<Rightarrow> error + flow \<times> 'w sdb_state" where
  "sdb_body env str s =
     (let str_end = length str
      in case strtok (Some str) '' '' s of
           (None, s1) \<Rightarrow> Inr (Continue, s1)
         | (Some cmd, s1) \<Rightarrow>
             let cmd_off = length (takeWhile (\<lambda>c. c = CHR '' '') str);
                 args_off = cmd_off + length cmd + 1;
                 args = (if args_off \<ge> str_end then None else Some (drop args_off str))
             in dispatch env cmd args cmd_table s1)"

function sdb_loop :: "'w collaborators \<Rightarrow> string list \<Rightarrow> 'w sdb_state \<Rightarrow> error + string list \<times> 'w sdb_state" where
  "sdb_loop env stdin s =
     (case rl_gets stdin s of
        (None, stdin', s1) \<Rightarrow> Inr (stdin', s1)
      | (Some str, stdin', s1) \<Rightarrow>
          (case sdb_body env str s1 of
             Inl err \<Rightarrow> Inl err
           | Inr (Return, s2) \<Rightarrow> Inr (stdin', s2)
           | Inr (Continue, s2) \<Rightarrow> sdb_loop env stdin' s2))"
  by pat_completeness auto
termination
  by (relation "measure (\<lambda>(env, stdin, s). length stdin)")
     (auto simp: rl_gets_def Let_def split: list.splits)

declare sdb_loop.simps [simp del]

text \<open>
  \<^verbatim>\<open>sdb_mainloop\<close> returns the lines it has not read together with the final state.
\<close>

definition sdb_mainloop :: "'w collaborators \<Rightarrow> string list \<Rightarrow> 'w sdb_state \<Rightarrow> error + string list \<times> 'w sdb_state" where
  "sdb_mainloop env stdin s =
     (if is_batch_mode s then
        (case cmd_c env None s of
           Inl err \<Rightarrow> Inl err
         | Inr (r, s1) \<Rightarrow> Inr (stdin, s1))
      else sdb_loop env stdin s)"

subsection \<open>A stand-in for the external functions\<close>

text \<open>
  To run the handlers on concrete lines the external functions need values. The
  stand-in machine counts the instructions of the bounded calls of \<open>cpu_exec\<close>, notes
  a call with a negative count as a free run, and keeps the numbers of the active
  watchpoints. Its evaluator knows three expressions and fails on every other text;
  its memory holds at each address the low byte of that address.
\<close>

record machine =
  steps :: int
  ran_free :: bool
  pool :: "int list"

definition machine0 :: machine where
  "machine0 = \<lparr>steps = 0, ran_free = False, pool = []\<rparr>"

definition demo_expr :: "string option \<Rightarrow> bool \<Rightarrow> machine \<Rightarrow> word_t \<times> bool" where
  "demo_expr e success m =
     (if e = Some ''1+1'' then (2, True)
      else if e = Some ''0x0'' then (0, True)
      else if e = Some ''0-1'' then (- 1, True)
      else (0, False))"

definition demo :: "machine collaborators" where
  "demo = \<lparr>
     cpu_exec = (\<lambda>n m. if n < 0 then m\<lparr>ran_free := True\<rparr> else m\<lparr>steps := steps m + n\<rparr>),
     isa_reg_display = (\<lambda>m. []),
     show_watchpoint = (\<lambda>m. []),
     new_wp = (\<lambda>e v m. (Some \<lparr>NO = int (length (pool m))\<rparr>, m\<lparr>pool := pool m @ [int (length (pool m))]\<rparr>)),
     delete_watchpoint = (\<lambda>n m. if n \<in> set (pool m) then (1, m\<lparr>pool := removeAll n (pool m)\<rparr>) else (0, m)),
     expr = demo_expr,
     vaddr_read = (\<lambda>a len m. a) \<rparr>"

definition sdb0 :: "machine sdb_state" where
  "sdb0 = \<lparr>is_batch_mode = False, nemu_quit = False, strtok_save = [], world = machine0,
           calls = [], out = []\<rparr>"

section \<open>Properties\<close>

subsection \<open>Auxiliary facts\<close>

lemma wrap32_id: "- (2 ^ 31) \<le> v \<Longrightarrow> v < 2 ^ 31 \<Longrightarrow> wrap32 v = v"
  by (simp add: wrap32_def)

lemma scan_d_abc: "scan_d ''abc'' = None"
  by (simp add: scan_d_def isspace_def isdigit_def)

lemma scan_d_minus_3: "scan_d ''-3'' = Some (- 3)"
  by (simp add: scan_d_def isspace_def isdigit_def digits_val_def digit_val_def)

lemma fmt_d_examples: "fmt_d 0 = ''0''" "fmt_d 2 = ''2''" "fmt_d (- 1) = ''-1''"
  by (simp_all add: fmt_d_def dec_nat.simps digit_char_def)

lemma scan_d_1: "scan_d ''1'' = Some 1"
  by (simp add: scan_d_def isspace_def isdigit_def digits_val_def digit_val_def)

lemma scan_d_2: "scan_d ''2'' = Some 2"
  by (simp add: scan_d_def isspace_def isdigit_def digits_val_def digit_val_def)

lemma scan_d_7: "scan_d ''7'' = Some 7"
  by (simp add: scan_d_def isspace_def isdigit_def digits_val_def digit_val_def)

lemma dropWhile_blanks: "dropWhile (\<lambda>c. c = CHR '' '') (replicate k (CHR '' '') @ xs) = dropWhile (\<lambda>c. c = CHR '' '') xs"
  by (induction k) simp_all

lemma takeWhile_blanks:
  "takeWhile (\<lambda>c. c = CHR '' '') (replicate k (CHR '' '') @ xs) =
     replicate k (CHR '' '') @ takeWhile (\<lambda>c. c = CHR '' '') xs"
  by (induction k) simp_all

lemma strtok_blank:
  "strtok str '' '' s =
     (let p1 = dropWhile (\<lambda>c. c = CHR '' '') (case str of None \<Rightarrow> strtok_save s | Some a \<Rightarrow> a)
      in if p1 = [] then (None, s\<lparr>strtok_save := []\<rparr>)
         else let tok = takeWhile (\<lambda>c. c \<noteq> CHR '' '') p1
              in (Some tok, s\<lparr>strtok_save := drop (length tok + 1) p1\<rparr>))"
  by (simp add: strtok_def Let_def)

lemma strtok_token:
  assumes p: "(case str of None \<Rightarrow> strtok_save s | Some a \<Rightarrow> a) = replicate k (CHR '' '') @ tok @ tail"
    and tok: "tok \<noteq> []" "CHR '' '' \<notin> set tok"
    and tail: "tail = [] \<or> hd tail = CHR '' ''"
  shows "strtok str '' '' s = (Some tok, s\<lparr>strtok_save := drop 1 tail\<rparr>)"
proof -
  have skip: "dropWhile (\<lambda>c. c = CHR '' '') (replicate k (CHR '' '') @ tok @ tail) = tok @ tail"
    using tok by (cases tok) (auto simp: dropWhile_blanks)
  have "takeWhile (\<lambda>c. c \<noteq> CHR '' '') tail = []"
    using tail by (cases tail) simp_all
  moreover have "\<forall>c \<in> set tok. c \<noteq> CHR '' ''"
    using tok by auto
  ultimately have take: "takeWhile (\<lambda>c. c \<noteq> CHR '' '') (tok @ tail) = tok"
    by simp
  show ?thesis
    unfolding strtok_blank p skip Let_def using tok by (simp add: take)
qed

lemma cmd_off_token:
  assumes "tok \<noteq> []" "CHR '' '' \<notin> set tok"
  shows "length (takeWhile (\<lambda>c. c = CHR '' '') (replicate k (CHR '' '') @ tok @ tail)) = k"
  using assms by (cases tok) (auto simp: takeWhile_blanks)

lemma dispatch_unknown:
  "cmd \<notin> fst ` set tbl \<Longrightarrow>
   dispatch env cmd args tbl s =
     Inr (Continue, s\<lparr>out := out s @ ''Unknown command '' @ [CHR 0x27] @ cmd @ [CHR 0x27, CHR 0x0A]\<rparr>)"
  by (induction tbl) (auto simp: printf_def)

lemma dispatch_known:
  "distinct (map fst tbl) \<Longrightarrow> (name, descr, h) \<in> set tbl \<Longrightarrow>
   dispatch env name args tbl s =
     (case call_handler env h args s of
        Inl err \<Rightarrow> Inl err
      | Inr (r, s') \<Rightarrow> Inr (if r < 0 then Return else Continue, s'))"
proof (induction tbl)
  case Nil
  then show ?case by simp
next
  case (Cons e tbl)
  show ?case
  proof (cases "name = fst e")
    case True
    with Cons.prems have "e = (name, descr, h)"
      by (cases e) (auto simp: image_iff)
    then show ?thesis
      by (auto split: sum.splits)
  next
    case False
    with Cons show ?thesis by auto
  qed
qed

lemma distinct_cmd_table: "distinct (map fst cmd_table)"
  by (simp add: cmd_table_def)

lemma sdb_body_token:
  assumes tok: "cmd \<noteq> []" "CHR '' '' \<notin> set cmd"
    and tail: "tail = [] \<or> hd tail = CHR '' ''"
  shows "sdb_body env (replicate k (CHR '' '') @ cmd @ tail) s =
           dispatch env cmd (if length tail \<le> 1 then None else Some (tl tail)) cmd_table
             (s\<lparr>strtok_save := drop 1 tail\<rparr>)"
proof -
  have "drop (Suc (k + length cmd)) (replicate k (CHR '' '') @ cmd @ tail) = tl tail"
    by (simp add: drop_Suc drop_tl)
  then show ?thesis
    using strtok_token [where str = "Some (replicate k (CHR '' '') @ cmd @ tail)" and s = s, OF _ tok tail]
    by (auto simp add: sdb_body_def cmd_off_token [OF tok] Let_def)
qed

lemma scan_d_big: "scan_d ''536870912'' = Some 536870912"
  by (simp add: scan_d_def isspace_def isdigit_def digits_val_def digit_val_def)

lemma upt_0_8: "[0..<8] = [0, 1, 2, 3, 4, 5, 6, 7 :: nat]"
  by code_simp

lemma x_loop_reads:
  "0 \<le> i \<Longrightarrow> i \<le> wrap32 (4 * n) \<Longrightarrow>
   x_loop env addr n i s =
     s\<lparr>calls := calls s @ map (\<lambda>j. E_vaddr_read (addr + of_nat j) 1) [nat i..<nat (wrap32 (4 * n))],
       out := out s @ concat (map (\<lambda>j. fmt_02x (ucast (vaddr_read env (addr + of_nat j) 1 (world s))) @ '' '')
                                [nat i..<nat (wrap32 (4 * n))])\<rparr>"
proof (induction env addr n i s rule: x_loop.induct)
  case (1 env addr n i s)
  show ?case
  proof (cases "i < wrap32 (4 * n)")
    case True
    have upt: "[nat i..<nat (wrap32 (4 * n))] = nat i # [nat (i + 1)..<nat (wrap32 (4 * n))]"
      using True "1.prems" by (simp add: upt_conv_Cons nat_add_distrib)
    have step: "x_loop env addr n i s =
        x_loop env addr n (i + 1)
          (printf (fmt_02x (ucast (vaddr_read env (addr + word_of_int i) 1 (world s))) @ '' '')
             (log_call (E_vaddr_read (addr + word_of_int i) 1) s))"
      using True by (subst x_loop.simps) simp
    show ?thesis
      unfolding step
      using True "1.prems"
      by (subst "1.IH" [OF True refl]) (simp_all add: upt printf_def log_call_def)
  next
    case False
    with "1.prems" have "i = wrap32 (4 * n)" by simp
    then show ?thesis
      by (subst x_loop.simps) simp
  qed
qed

subsection \<open>Batch mode\<close>

text \<open>
  C9. With the batch flag set, \<open>sdb_mainloop\<close> calls \<open>cpu_exec\<close> once, with \<open>-1\<close>
  (run until the machine halts), and returns: the log gains this one call and no
  \<open>E_readline\<close>, and the list of input lines comes back untouched.
\<close>

theorem batch_mode_single_unbounded_run:
  "is_batch_mode s \<Longrightarrow>
   sdb_mainloop env stdin s =
     Inr (stdin, s\<lparr>world := cpu_exec env (- 1) (world s), calls := calls s @ [E_cpu_exec (- 1)]\<rparr>)"
  by (simp add: sdb_mainloop_def cmd_c_def call_cpu_exec_def log_call_def)

theorem batch_mode_single_unbounded_run_witness:
  "is_batch_mode (sdb_set_batch_mode sdb0) \<and>
   sdb_mainloop demo [''si'', ''q''] (sdb_set_batch_mode sdb0) =
     Inr ([''si'', ''q''],
          sdb0\<lparr>is_batch_mode := True, world := machine0\<lparr>ran_free := True\<rparr>, calls := [E_cpu_exec (- 1)]\<rparr>)"
  using batch_mode_single_unbounded_run [of "sdb_set_batch_mode sdb0" demo "[''si'', ''q'']"]
  by (simp add: sdb_set_batch_mode_def sdb0_def demo_def machine0_def)

subsection \<open>The command si\<close>

text \<open>
  C6. \<open>si\<close> without an argument calls \<open>cpu_exec\<close> once with the count 1. With an
  argument in which \<^verbatim>\<open>%d\<close> finds no number, such as \<open>abc\<close>, it calls \<open>cpu_exec\<close> once
  with the count 0. In both cases the handler returns the status 0, so nothing is
  raised and the session goes on: the body of the loop, run on the lines \<open>si\<close> and
  \<open>si abc\<close>, ends with \<open>Continue\<close>.
\<close>

theorem si_default_one_step_non_numeric_zero:
  "cmd_si env None s =
     Inr (0, s\<lparr>world := cpu_exec env 1 (world s), calls := calls s @ [E_cpu_exec 1]\<rparr>) \<and>
   (scan_d a = None \<longrightarrow>
     cmd_si env (Some a) s =
       Inr (0, s\<lparr>world := cpu_exec env 0 (world s), calls := calls s @ [E_cpu_exec 0]\<rparr>)) \<and>
   scan_d ''abc'' = None \<and>
   sdb_body env ''si'' s =
     Inr (Continue, s\<lparr>strtok_save := [], world := cpu_exec env 1 (world s),
                       calls := calls s @ [E_cpu_exec 1]\<rparr>) \<and>
   sdb_body env ''si abc'' s =
     Inr (Continue, s\<lparr>strtok_save := ''abc'', world := cpu_exec env 0 (world s),
                       calls := calls s @ [E_cpu_exec 0]\<rparr>)"
  by (simp add: cmd_si_def call_cpu_exec_def log_call_def sscanf_d_def scan_d_abc
        sdb_body_def strtok_def cmd_table_def)

theorem si_default_one_step_non_numeric_zero_witness:
  "cmd_si demo None sdb0 =
     Inr (0, sdb0\<lparr>world := machine0\<lparr>steps := 1\<rparr>, calls := [E_cpu_exec 1]\<rparr>) \<and>
   scan_d ''abc'' = None \<and>
   cmd_si demo (Some ''abc'') sdb0 =
     Inr (0, sdb0\<lparr>world := machine0\<lparr>steps := 0\<rparr>, calls := [E_cpu_exec 0]\<rparr>)"
  using si_default_one_step_non_numeric_zero [of demo sdb0 "''abc''"]
  by (simp add: sdb0_def demo_def machine0_def)

text \<open>
  C10. When \<^verbatim>\<open>%d\<close> reads a negative number \<open>N\<close> of the range of \<^verbatim>\<open>int\<close> from the
  argument of \<open>si\<close>, the handler calls \<open>cpu_exec\<close> once, with \<open>N\<close> itself: neither its
  absolute value nor 0. What the machine then does is the engine's reading of a negative
  count.
\<close>

theorem si_negative_count_passed_on:
  "scan_d a = Some N \<Longrightarrow> - (2 ^ 31) \<le> N \<Longrightarrow> N < 0 \<Longrightarrow>
   cmd_si env (Some a) s =
     Inr (0, s\<lparr>world := cpu_exec env N (world s), calls := calls s @ [E_cpu_exec N]\<rparr>)"
  by (simp add: cmd_si_def call_cpu_exec_def log_call_def sscanf_d_def wrap32_id)

theorem si_negative_count_passed_on_witness:
  "scan_d ''-3'' = Some (- 3) \<and> - (2 ^ 31) \<le> (- 3 :: int) \<and> (- 3 :: int) < 0 \<and>
   cmd_si demo (Some ''-3'') sdb0 =
     Inr (0, sdb0\<lparr>world := machine0\<lparr>ran_free := True\<rparr>, calls := [E_cpu_exec (- 3)]\<rparr>)"
  using si_negative_count_passed_on [of "''-3''" "- 3" demo sdb0]
  by (simp add: scan_d_minus_3 sdb0_def demo_def machine0_def)

subsection \<open>The command p\<close>

text \<open>
  C7. When the evaluator leaves the flag set, \<open>p\<close> prints \<open>val = \<close> followed by the
  value read as a signed number in decimal; when the evaluator clears the flag, \<open>p\<close>
  prints the error message, in which no digit occurs, and nothing else. Either way the
  status is 0.
\<close>

theorem p_prints_signed_value_or_error:
  "(expr env args True (world s) = (v, True) \<longrightarrow>
      cmd_p env args s =
        Inr (0, s\<lparr>calls := calls s @ [E_expr args],
                  out := out s @ ''val = '' @ fmt_d (sint v) @ [CHR 0x0A]\<rparr>)) \<and>
   (expr env args True (world s) = (v, False) \<longrightarrow>
      cmd_p env args s =
        Inr (0, s\<lparr>calls := calls s @ [E_expr args],
                  out := out s @ ''expr false, please correctly input again!'' @ [CHR 0x0A]\<rparr>)) \<and>
   (\<forall>c \<in> set (''expr false, please correctly input again!'' @ [CHR 0x0A]). \<not> isdigit c)"
  by (simp add: cmd_p_def printf_def log_call_def isdigit_def)

theorem p_prints_signed_value_or_error_witness:
  "expr demo (Some ''1+1'') True (world sdb0) = (2, True) \<and>
   cmd_p demo (Some ''1+1'') sdb0 =
     Inr (0, sdb0\<lparr>calls := [E_expr (Some ''1+1'')], out := ''val = 2'' @ [CHR 0x0A]\<rparr>) \<and>
   expr demo (Some ''0-1'') True (world sdb0) = (- 1, True) \<and>
   cmd_p demo (Some ''0-1'') sdb0 =
     Inr (0, sdb0\<lparr>calls := [E_expr (Some ''0-1'')], out := ''val = -1'' @ [CHR 0x0A]\<rparr>) \<and>
   expr demo (Some ''???'') True (world sdb0) = (0, False) \<and>
   cmd_p demo (Some ''???'') sdb0 =
     Inr (0, sdb0\<lparr>calls := [E_expr (Some ''???'')],
                    out := ''expr false, please correctly input again!'' @ [CHR 0x0A]\<rparr>)"
  using p_prints_signed_value_or_error [of demo "Some ''1+1''" sdb0 2]
        p_prints_signed_value_or_error [of demo "Some ''0-1''" sdb0 "- 1"]
        p_prints_signed_value_or_error [of demo "Some ''???''" sdb0 0]
  by (simp add: demo_def demo_expr_def sdb0_def fmt_d_examples)

subsection \<open>The command w\<close>

text \<open>
  C3. \<open>w\<close> calls \<open>new_wp\<close> exactly when the evaluator leaves the flag set. The call
  gets the argument text as the handler received it and the value the evaluator
  returned, as an unsigned word, and the number of the watchpoint returned is printed.
  Should \<open>new_wp\<close> hand back \<^verbatim>\<open>NULL\<close>, reading the number stops the process. When the
  evaluator clears the flag, \<open>new_wp\<close> is not called and nothing is printed.
\<close>

theorem w_allocates_iff_evaluation_succeeds:
  "(expr env args True (world s) = (v, True) \<and> new_wp env args v (world s) = (Some wp, w') \<longrightarrow>
      cmd_w env args s =
        Inr (0, s\<lparr>world := w', calls := calls s @ [E_expr args, E_new_wp args v],
                  out := out s @ ''watch point '' @ fmt_d (NO wp) @ '' set succeed'' @ [CHR 0x0A]\<rparr>)) \<and>
   (expr env args True (world s) = (v, True) \<and> new_wp env args v (world s) = (None, w') \<longrightarrow>
      cmd_w env args s = Inl NullDereference) \<and>
   (expr env args True (world s) = (v, False) \<longrightarrow>
      cmd_w env args s = Inr (0, s\<lparr>calls := calls s @ [E_expr args]\<rparr>))"
  by (simp add: cmd_w_def printf_def log_call_def)

theorem w_allocates_iff_evaluation_succeeds_witness:
  "expr demo (Some ''0-1'') True (world sdb0) = (- 1, True) \<and>
   new_wp demo (Some ''0-1'') (- 1) (world sdb0) = (Some \<lparr>NO = 0\<rparr>, machine0\<lparr>pool := [0]\<rparr>) \<and>
   cmd_w demo (Some ''0-1'') sdb0 =
     Inr (0, sdb0\<lparr>world := machine0\<lparr>pool := [0]\<rparr>,
                    calls := [E_expr (Some ''0-1''), E_new_wp (Some ''0-1'') 4294967295],
                    out := ''watch point 0 set succeed'' @ [CHR 0x0A]\<rparr>) \<and>
   expr demo (Some ''???'') True (world sdb0) = (0, False) \<and>
   cmd_w demo (Some ''???'') sdb0 = Inr (0, sdb0\<lparr>calls := [E_expr (Some ''???'')]\<rparr>) \<and>
   new_wp (demo\<lparr>new_wp := \<lambda>e v m. (None, m)\<rparr>) (Some ''1+1'') 2 (world sdb0) = (None, machine0) \<and>
   cmd_w (demo\<lparr>new_wp := \<lambda>e v m. (None, m)\<rparr>) (Some ''1+1'') sdb0 = Inl NullDereference"
  using w_allocates_iff_evaluation_succeeds [of demo "Some ''0-1''" sdb0 "- 1" "\<lparr>NO = 0\<rparr>" "machine0\<lparr>pool := [0]\<rparr>"]
        w_allocates_iff_evaluation_succeeds [of demo "Some ''???''" sdb0 0]
        w_allocates_iff_evaluation_succeeds [of "demo\<lparr>new_wp := \<lambda>e v m. (None, m)\<rparr>" "Some ''1+1''" sdb0 2 _ machine0]
  by (simp add: demo_def demo_expr_def sdb0_def machine0_def fmt_d_examples)

subsection \<open>The command info\<close>

text \<open>
  With an argument that is neither \<open>r\<close> nor \<open>w\<close> the handler prints the message,
  calls nothing and returns 0.
\<close>

lemma info_other_argument:
  "a \<noteq> ''r'' \<Longrightarrow> a \<noteq> ''w'' \<Longrightarrow>
   cmd_info env (Some a) s = Inr (0, s\<lparr>out := out s @ ''Unknow parma'' @ [CHR 0x0A]\<rparr>)"
  by (simp add: cmd_info_def printf_def)

text \<open>
  C4. The claim includes the line \<open>info\<close> with no argument: there the loop passes
  \<^verbatim>\<open>NULL\<close>, and the handler hands it to \<^verbatim>\<open>strcmp\<close>. The handler, the body of the loop
  and the loop itself end in the null dereference; no message is printed and the lines
  \<open>rest\<close> are never read.
\<close>

theorem info_without_argument_dereferences_null:
  "cmd_info env None s = Inl NullDereference \<and>
   sdb_body env ''info'' s = Inl NullDereference \<and>
   sdb_loop env (''info'' # rest) s = Inl NullDereference"
  by (simp add: cmd_info_def sdb_body_def strtok_def cmd_table_def sdb_loop.simps [of _ "_ # _"] rl_gets_def)

subsection \<open>The command x\<close>

text \<open>
  C2. The claim asks for no read and no byte output when the evaluation of the address
  fails. The handler never looks at the flag: for the argument \<open>1 ???\<close> and an
  evaluator that clears the flag and returns \<open>a\<close>, four bytes are read at \<open>a\<close>,
  \<open>a + 1\<close>, \<open>a + 2\<close>, \<open>a + 3\<close> and printed, and no error is reported.
\<close>

theorem x_reads_after_failed_evaluation:
  "expr env (Some ''???'') False (world s) = (a, False) \<Longrightarrow>
   cmd_x env (Some ''1 ???'') s =
     Inr (0, s\<lparr>strtok_save := [],
               calls := calls s @ [E_expr (Some ''???''), E_vaddr_read a 1, E_vaddr_read (a + 1) 1,
                                   E_vaddr_read (a + 2) 1, E_vaddr_read (a + 3) 1],
               out := out s @ fmt_02x (ucast (vaddr_read env a 1 (world s))) @ '' '' @
                              fmt_02x (ucast (vaddr_read env (a + 1) 1 (world s))) @ '' '' @
                              fmt_02x (ucast (vaddr_read env (a + 2) 1 (world s))) @ '' '' @
                              fmt_02x (ucast (vaddr_read env (a + 3) 1 (world s))) @ '' '' @ [CHR 0x0A]\<rparr>)"
  by (simp add: cmd_x_def strtok_def sscanf_d_def scan_d_1 wrap32_def x_loop.simps printf_def log_call_def)

theorem x_reads_after_failed_evaluation_witness:
  "expr demo (Some ''???'') False (world sdb0) = (0, False) \<and>
   cmd_x demo (Some ''1 ???'') sdb0 =
     Inr (0, sdb0\<lparr>calls := [E_expr (Some ''???''), E_vaddr_read 0 1, E_vaddr_read 1 1,
                              E_vaddr_read 2 1, E_vaddr_read 3 1],
                    out := ''00 01 02 03 '' @ [CHR 0x0A]\<rparr>)"
  using x_reads_after_failed_evaluation [of demo sdb0 0]
  by (simp add: demo_def demo_expr_def sdb0_def machine0_def fmt_02x_def digit_char_def)

text \<open>
  C5. Let the argument of \<open>x\<close> consist of blanks, a count \<open>p1\<close>, at least one blank,
  a word \<open>p2\<close> and a tail, and let \<^verbatim>\<open>%d\<close> read from \<open>p1\<close> a number \<open>n\<close> with
  \<open>0 < n < 2^29\<close>, so that \<open>4 * n\<close> is an \<^verbatim>\<open>int\<close>. Then the handler evaluates \<open>p2\<close>
  once, reads the \<open>4 * n\<close> bytes at \<open>a\<close>, \<open>a + 1\<close>, ... one at a time, \<open>a\<close> being
  the value of the evaluator, prints each as two hexadecimal digits followed by a blank,
  ends the line and returns 0.
\<close>

theorem x_reads_four_bytes_per_count:
  assumes "p1 \<noteq> []" and "CHR '' '' \<notin> set p1" and "p2 \<noteq> []" and "CHR '' '' \<notin> set p2"
    and "tail = [] \<or> hd tail = CHR '' ''"
    and "scan_d p1 = Some n" and "0 < n" and "n < 2 ^ 29"
    and "expr env (Some p2) False (world s) = (a, ok)"
  shows "cmd_x env (Some (replicate j (CHR '' '') @ p1 @ replicate (Suc k) (CHR '' '') @ p2 @ tail)) s =
     Inr (0, s\<lparr>strtok_save := drop 1 tail,
               calls := calls s @ E_expr (Some p2) # map (\<lambda>i. E_vaddr_read (a + of_nat i) 1) [0..<nat (4 * n)],
               out := out s @
                 concat (map (\<lambda>i. fmt_02x (ucast (vaddr_read env (a + of_nat i) 1 (world s))) @ '' '')
                           [0..<nat (4 * n)]) @ [CHR 0x0A]\<rparr>)"
proof -
  let ?mid = "replicate (Suc k) (CHR '' '') @ p2 @ tail"
  have t1: "strtok (Some (replicate j (CHR '' '') @ p1 @ ?mid)) '' '' s =
              (Some p1, s\<lparr>strtok_save := replicate k (CHR '' '') @ p2 @ tail\<rparr>)"
    using strtok_token [where str = "Some (replicate j (CHR '' '') @ p1 @ ?mid)" and s = s
        and k = j and tok = p1 and tail = ?mid] assms(1,2)
    by simp
  have t2: "strtok None '' '' (s\<lparr>strtok_save := replicate k (CHR '' '') @ p2 @ tail\<rparr>) =
              (Some p2, s\<lparr>strtok_save := drop 1 tail\<rparr>)"
    using strtok_token [where str = None and s = "s\<lparr>strtok_save := replicate k (CHR '' '') @ p2 @ tail\<rparr>"
        and k = k and tok = p2 and tail = tail] assms(3,4,5)
    by simp
  have n: "wrap32 n = n" "wrap32 (4 * n) = 4 * n"
    using assms(7,8) by (simp_all add: wrap32_id)
  show ?thesis
    using assms(6,7,9)
    by (simp add: cmd_x_def t1 t2 sscanf_d_def n x_loop_reads printf_def log_call_def del: replicate_Suc)
qed

theorem x_reads_four_bytes_per_count_witness:
  "scan_d ''2'' = Some 2 \<and> expr demo (Some ''0x0'') False (world sdb0) = (0, True) \<and>
   cmd_x demo (Some ''2 0x0'') sdb0 =
     Inr (0, sdb0\<lparr>calls := [E_expr (Some ''0x0''), E_vaddr_read 0 1, E_vaddr_read 1 1, E_vaddr_read 2 1,
                              E_vaddr_read 3 1, E_vaddr_read 4 1, E_vaddr_read 5 1, E_vaddr_read 6 1,
                              E_vaddr_read 7 1],
                    out := ''00 01 02 03 04 05 06 07 '' @ [CHR 0x0A]\<rparr>)"
  using x_reads_four_bytes_per_count [of "''2''" "''0x0''" "[]" 2 demo sdb0 0 True 0 0]
  by (simp add: scan_d_2 demo_def demo_expr_def sdb0_def machine0_def fmt_02x_def digit_char_def
        upt_0_8)

text \<open>
  The bound on the count is needed. The count \<open>536870912 = 2^29\<close> is positive, but
  four times it is beyond the range of \<^verbatim>\<open>int\<close> and wraps to a negative bound: the
  loop is not entered and no byte is read.
\<close>

theorem x_count_overflow_counterexample:
  "scan_d ''536870912'' = Some 536870912 \<and> (0 :: int) < 536870912 \<and>
   expr demo (Some ''0x0'') False (world sdb0) = (0, True) \<and>
   cmd_x demo (Some ''536870912 0x0'') sdb0 =
     Inr (0, sdb0\<lparr>calls := [E_expr (Some ''0x0'')], out := [CHR 0x0A]\<rparr>)"
  by (simp add: scan_d_big cmd_x_def strtok_def sscanf_d_def wrap32_def x_loop.simps
        printf_def log_call_def demo_def demo_expr_def sdb0_def machine0_def)

subsection \<open>The command d\<close>

text \<open>
  C1. The claim asks that a failed deletion leaves the session running. For the line
  \<open>d 7\<close> and a pool that does not answer 1, the handler prints the failure message
  and returns \<open>-1\<close>, and the loop returns on a negative status: the lines \<open>rest\<close>
  come back unread.
\<close>

theorem d_failure_leaves_the_loop:
  "delete_watchpoint env 7 (world s) = (r, w') \<Longrightarrow> r \<noteq> 1 \<Longrightarrow>
   sdb_loop env (''d 7'' # rest) s =
     Inr (rest, s\<lparr>strtok_save := [], world := w',
                  calls := calls s @ [E_readline ''(nemu) '', E_add_history ''d 7'', E_delete_watchpoint 7],
                  out := out s @ ''delete failed, please input correct number!'' @ [CHR 0x0A]\<rparr>)"
  by (simp add: sdb_loop.simps [of _ "_ # _"] rl_gets_def sdb_body_def strtok_def cmd_table_def
        cmd_d_def sscanf_d_def scan_d_7 wrap32_def printf_def log_call_def)

theorem d_failure_leaves_the_loop_witness:
  "delete_watchpoint demo 7 (world sdb0) = (0, machine0) \<and> (0 :: int) \<noteq> 1 \<and>
   sdb_loop demo [''d 7'', ''help''] sdb0 =
     Inr ([''help''], sdb0\<lparr>calls := [E_readline ''(nemu) '', E_add_history ''d 7'', E_delete_watchpoint 7],
                  out := ''delete failed, please input correct number!'' @ [CHR 0x0A]\<rparr>)"
  using d_failure_leaves_the_loop [of demo sdb0 0 machine0 "[''help'']"]
  by (simp add: demo_def sdb0_def machine0_def)

subsection \<open>Dispatch\<close>

text \<open>
  C8. The loop splits the line at the blank only. Let a line consist of \<open>k\<close> blanks,
  a non-empty word \<open>cmd\<close> without a blank, and a tail that is empty or starts with a
  blank. If \<open>cmd\<close> is no name of the table, the body prints \<open>Unknown command 'cmd'\<close>
  and the loop goes on to read the next line. If the table has an entry for \<open>cmd\<close>,
  the body is the call of that entry's handler, with the tail behind its first blank as
  argument (\<^verbatim>\<open>NULL\<close> when nothing is left there); the loop is left only on a negative
  status.
\<close>

theorem dispatch_by_first_token:
  assumes "cmd \<noteq> []" and "CHR '' '' \<notin> set cmd" and "tail = [] \<or> hd tail = CHR '' ''"
    and "line = replicate k (CHR '' '') @ cmd @ tail"
  shows "(cmd \<notin> fst ` set cmd_table \<longrightarrow>
            sdb_body env line s =
              Inr (Continue, s\<lparr>strtok_save := drop 1 tail,
                                out := out s @ ''Unknown command '' @ [CHR 0x27] @ cmd @ [CHR 0x27, CHR 0x0A]\<rparr>) \<and>
            sdb_loop env (line # rest) s =
              sdb_loop env rest
                (s\<lparr>strtok_save := drop 1 tail,
                   calls := calls s @ [E_readline ''(nemu) '', E_add_history line],
                   out := out s @ ''Unknown command '' @ [CHR 0x27] @ cmd @ [CHR 0x27, CHR 0x0A]\<rparr>)) \<and>
         (\<forall>descr h. (cmd, descr, h) \<in> set cmd_table \<longrightarrow>
            sdb_body env line s =
              (case call_handler env h (if length tail \<le> 1 then None else Some (tl tail))
                      (s\<lparr>strtok_save := drop 1 tail\<rparr>) of
                 Inl err \<Rightarrow> Inl err
               | Inr (r, s') \<Rightarrow> Inr (if r < 0 then Return else Continue, s')))"
proof -
  have body: "sdb_body env line s' =
      dispatch env cmd (if length tail \<le> 1 then None else Some (tl tail)) cmd_table
        (s'\<lparr>strtok_save := drop 1 tail\<rparr>)" for s'
    using assms by (simp add: sdb_body_token)
  have line: "line \<noteq> []"
    using assms by simp
  have order: "s\<lparr>calls := c, strtok_save := t, out := x\<rparr> = s\<lparr>strtok_save := t, calls := c, out := x\<rparr>"
    for c t x
    by simp
  show ?thesis
    using line
    by (simp add: body dispatch_unknown dispatch_known [OF distinct_cmd_table]
          sdb_loop.simps [of _ "_ # _"] rl_gets_def log_call_def order)
qed

theorem dispatch_by_first_token_witness:
  "''foo'' \<notin> fst ` set cmd_table \<and>
   sdb_body demo ''foo bar'' sdb0 =
     Inr (Continue, sdb0\<lparr>strtok_save := ''bar'',
                           out := ''Unknown command '' @ [CHR 0x27] @ ''foo'' @ [CHR 0x27, CHR 0x0A]\<rparr>) \<and>
   sdb_loop demo [''foo bar''] sdb0 =
     Inr ([], sdb0\<lparr>strtok_save := ''bar'',
                     calls := [E_readline ''(nemu) '', E_add_history ''foo bar'', E_readline ''(nemu) ''],
                     out := ''Unknown command '' @ [CHR 0x27] @ ''foo'' @ [CHR 0x27, CHR 0x0A]\<rparr>) \<and>
   (''si'', ''Step through N instructions'', H_cmd_si) \<in> set cmd_table \<and>
   sdb_body demo ''  si 2'' sdb0 =
     Inr (Continue, sdb0\<lparr>strtok_save := ''2'', world := machine0\<lparr>steps := 2\<rparr>,
                           calls := [E_cpu_exec 2]\<rparr>)"
  using dispatch_by_first_token [of "''foo''" "'' bar''" "''foo bar''" 0 demo sdb0 "[]"]
        dispatch_by_first_token [of "''si''" "'' 2''" "''  si 2''" 2 demo sdb0 "[]"]
  by (simp add: cmd_table_def sdb_loop.simps [of _ "[]"] rl_gets_def log_call_def
        cmd_si_def call_cpu_exec_def sscanf_d_def scan_d_2 wrap32_def
        demo_def sdb0_def machine0_def numeral_2_eq_2)

text \<open>
  Other white space does not end the verb. In the line \<open>help<TAB>si\<close> the word up to
  the first white space is the registered verb \<open>help\<close>, but the loop takes the whole
  line as the verb and reports it as unknown.
\<close>

theorem tab_is_no_delimiter_counterexample:
  "isspace (CHR 0x09) \<and>
   takeWhile (\<lambda>c. \<not> isspace c) (''help'' @ [CHR 0x09] @ ''si'') = ''help'' \<and>
   ''help'' \<in> fst ` set cmd_table \<and>
   sdb_body demo (''help'' @ [CHR 0x09] @ ''si'') sdb0 =
     Inr (Continue,
          sdb0\<lparr>out := ''Unknown command '' @ [CHR 0x27] @ ''help'' @ [CHR 0x09] @ ''si'' @ [CHR 0x27, CHR 0x0A]\<rparr>)"
  by (simp add: isspace_def cmd_table_def sdb_body_def strtok_def printf_def sdb0_def)

end
